theory Spec2Isabelle
  imports Main "HOL-Library.Char_ord" "HOL-Library.List_Lexorder" "HOL-Library.Sublist"
begin

section \<open>Go strings\<close>

text \<open>
  A Go \<open>string\<close> is a sequence of bytes; it is modelled as \<open>string\<close> (a list of
  \<open>char\<close>, one \<open>char\<close> per byte). Comparison of strings in Go is bytewise
  lexicographic, which is the order of \<open>List_Lexorder\<close> over \<open>Char_ord\<close>.
\<close>

text \<open>\<open>strings.Index(s, sep)\<close>: index of the first instance of \<open>sep\<close> in \<open>s\<close>, or -1.\<close>

fun strings_Index :: "string \<Rightarrow> string \<Rightarrow> int" where
  "strings_Index [] sep = (if sep = [] then 0 else - 1)"
| "strings_Index (c # t) sep =
     (if prefix sep (c # t) then 0
      else (let i = strings_Index t sep in if i < 0 then - 1 else i + 1))"

text \<open>\<open>strings.HasSuffix(s, suffix)\<close> is
  \<open>len(s) >= len(suffix) && s[len(s)-len(suffix):] == suffix\<close>.\<close>

definition strings_HasSuffix :: "string \<Rightarrow> string \<Rightarrow> bool" where
  "strings_HasSuffix s suff =
     (length suff \<le> length s \<and> drop (length s - length suff) s = suff)"

definition strings_HasPrefix :: "string \<Rightarrow> string \<Rightarrow> bool" where
  "strings_HasPrefix s pre = (length pre \<le> length s \<and> take (length pre) s = pre)"

text \<open>\<open>strings.Join(elems, sep)\<close>.\<close>

fun strings_Join :: "string list \<Rightarrow> string \<Rightarrow> string" where
  "strings_Join [] sep = []"
| "strings_Join [e] sep = e"
| "strings_Join (e # es) sep = e @ sep @ strings_Join es sep"

text \<open>\<open>strings.Split(s, string(c))\<close> for a one-byte separator.\<close>

fun split_byte :: "char \<Rightarrow> string \<Rightarrow> string list" where
  "split_byte c [] = [[]]"
| "split_byte c (x # xs) =
     (if x = c then [] # split_byte c xs
      else (case split_byte c xs of [] \<Rightarrow> [[x]] | p # ps \<Rightarrow> (x # p) # ps))"

text \<open>The part of \<open>s\<close> before the first \<open>c\<close> and the part after it
  (\<open>s[:i]\<close> and \<open>s[i+1:]\<close> for \<open>i = strings.IndexByte(s, c)\<close>, when \<open>i >= 0\<close>).\<close>

definition before_byte :: "char \<Rightarrow> string \<Rightarrow> string" where
  "before_byte c s = takeWhile (\<lambda>x. x \<noteq> c) s"

definition after_byte :: "char \<Rightarrow> string \<Rightarrow> string" where
  "after_byte c s = drop 1 (dropWhile (\<lambda>x. x \<noteq> c) s)"

section \<open>Packages \<open>path\<close> and \<open>path/filepath\<close> (Unix)\<close>

text \<open>
  \<open>path.Clean\<close>: multiple slashes become one, \<open>.\<close> elements are dropped, an inner
  \<open>..\<close> removes the element before it, a \<open>..\<close> at the start of a rooted path is
  dropped, and the empty result is \<open>.\<close>. \<open>clean_elems\<close> is the loop over the
  elements; \<open>out\<close> is the output so far, last element first.
\<close>

fun clean_elems :: "bool \<Rightarrow> string list \<Rightarrow> string list \<Rightarrow> string list" where
  "clean_elems rooted out [] = rev out"
| "clean_elems rooted out (e # es) =
     (if e = [] \<or> e = ''.'' then clean_elems rooted out es
      else if e = ''..'' then
        (if out \<noteq> [] \<and> hd out \<noteq> ''..'' then clean_elems rooted (tl out) es
         else if \<not> rooted then clean_elems rooted (e # out) es
         else clean_elems rooted out es)
      else clean_elems rooted (e # out) es)"

definition path_Clean :: "string \<Rightarrow> string" where
  "path_Clean p =
     (if p = [] then ''.''
      else
        (let rooted = (hd p = CHR ''/'');
             out = clean_elems rooted [] (split_byte CHR ''/'' p);
             s = (if rooted then ''/'' else []) @ strings_Join out ''/''
         in if s = [] then ''.'' else s))"

text \<open>\<open>path.Join\<close>: empty elements before the first non-empty one are ignored, the
  rest is joined with slashes and cleaned; with no non-empty element the result is
  empty. On Unix \<open>filepath.Join\<close> is the same function.\<close>

definition path_Join :: "string list \<Rightarrow> string" where
  "path_Join elem =
     (case dropWhile (\<lambda>e. e = []) elem of
        [] \<Rightarrow> []
      | es \<Rightarrow> path_Clean (strings_Join es ''/''))"

definition filepath_Join :: "string list \<Rightarrow> string" where
  "filepath_Join elem = path_Join elem"

text \<open>\<open>filepath.Base\<close>: the last element of the path, after removing trailing
  slashes; \<open>.\<close> for the empty path and \<open>/\<close> for a path of slashes only.\<close>

definition filepath_Base :: "string \<Rightarrow> string" where
  "filepath_Base p =
     (if p = [] then ''.''
      else
        (let p1 = rev (dropWhile (\<lambda>x. x = CHR ''/'') (rev p));
             p2 = rev (takeWhile (\<lambda>x. x \<noteq> CHR ''/'') (rev p1))
         in if p2 = [] then ''/'' else p2))"

section \<open>Package \<open>net/url\<close>\<close>

subsection \<open>Escaping\<close>

datatype encoding =
  encodePath | encodePathSegment | encodeHost | encodeZone
  | encodeUserPassword | encodeQueryComponent | encodeFragment

text \<open>What \<open>url.Parse\<close> can report (the \<open>Err\<close> of a \<open>*url.Error\<close>).\<close>

datatype url_cause =
  InvalidControlCharacter
  | MissingProtocolScheme
  | FirstPathSegmentColon
  | EscapeError string
  | InvalidHostError string
  | InvalidPort string
  | MissingBracket
  | InvalidUserinfo

text \<open>The test \<open>lo <= c && c <= hi\<close> on bytes.\<close>

definition byte_in :: "char \<Rightarrow> char \<Rightarrow> char \<Rightarrow> bool" where
  "byte_in lo hi c = (lo \<le> c \<and> c \<le> hi)"

definition isalnum :: "char \<Rightarrow> bool" where
  "isalnum c =
     (byte_in CHR ''a'' CHR ''z'' c \<or> byte_in CHR ''A'' CHR ''Z'' c
      \<or> byte_in CHR ''0'' CHR ''9'' c)"

definition shouldEscape :: "char \<Rightarrow> encoding \<Rightarrow> bool" where
  "shouldEscape c mode =
     (if isalnum c then False
      else if (mode = encodeHost \<or> mode = encodeZone) \<and> c \<in> set ''!$&'()*+,;=:[]<>\"'' then False
      else if c \<in> set ''-_.~'' then False
      else if c \<in> set ''$&+,/:;=?@'' then
        (case mode of
           encodePath \<Rightarrow> c = CHR ''?''
         | encodePathSegment \<Rightarrow> c \<in> set ''/;,?''
         | encodeUserPassword \<Rightarrow> c \<in> set ''@/?:''
         | encodeQueryComponent \<Rightarrow> True
         | encodeFragment \<Rightarrow> False
         | _ \<Rightarrow> True)
      else if mode = encodeFragment \<and> c \<in> set ''!()*'' then False
      else True)"

definition upperhex :: "nat \<Rightarrow> char" where
  "upperhex n = ''0123456789ABCDEF'' ! n"

definition ishex :: "char \<Rightarrow> bool" where
  "ishex c =
     (byte_in CHR ''0'' CHR ''9'' c \<or> byte_in CHR ''a'' CHR ''f'' c
      \<or> byte_in CHR ''A'' CHR ''F'' c)"

definition unhex :: "char \<Rightarrow> nat" where
  "unhex c =
     (if byte_in CHR ''0'' CHR ''9'' c then of_char c - of_char CHR ''0''
      else if byte_in CHR ''a'' CHR ''f'' c then of_char c - of_char CHR ''a'' + 10
      else if byte_in CHR ''A'' CHR ''F'' c then of_char c - of_char CHR ''A'' + 10
      else 0)"

definition escape_byte :: "encoding \<Rightarrow> char \<Rightarrow> string" where
  "escape_byte mode c =
     (if c = CHR '' '' \<and> mode = encodeQueryComponent then ''+''
      else if shouldEscape c mode then
        [CHR ''%'', upperhex (of_char c div 16), upperhex (of_char c mod 16)]
      else [c])"

definition escape :: "string \<Rightarrow> encoding \<Rightarrow> string" where
  "escape s mode = concat (map (escape_byte mode) s)"

text \<open>
  \<open>unescape\<close> first checks that every \<open>%\<close> is followed by two hexadecimal digits
  (and, for a host, that no forbidden byte occurs), then converts.
\<close>

fun unescape_check :: "encoding \<Rightarrow> string \<Rightarrow> url_cause option" where
  "unescape_check mode [] = None"
| "unescape_check mode (c # s) =
     (if c = CHR ''%'' then
        (case s of
           a # b # t \<Rightarrow>
             if \<not> ishex a \<or> \<not> ishex b then Some (EscapeError (take 3 (c # s)))
             else if mode = encodeHost \<and> unhex a < 8 \<and> [c, a, b] \<noteq> ''%25'' then
               Some (EscapeError [c, a, b])
             else if mode = encodeZone \<and> [c, a, b] \<noteq> ''%25''
                     \<and> char_of (unhex a * 16 + unhex b) \<noteq> CHR '' ''
                     \<and> shouldEscape (char_of (unhex a * 16 + unhex b)) encodeHost then
               Some (EscapeError [c, a, b])
             else unescape_check mode t
         | _ \<Rightarrow> Some (EscapeError (take 3 (c # s))))
      else if c = CHR ''+'' then unescape_check mode s
      else if (mode = encodeHost \<or> mode = encodeZone) \<and> (of_char c :: nat) < 128
              \<and> shouldEscape c encodeHost then
        Some (InvalidHostError [c])
      else unescape_check mode s)"

fun unescape_bytes :: "encoding \<Rightarrow> string \<Rightarrow> string" where
  "unescape_bytes mode [] = []"
| "unescape_bytes mode (c # s) =
     (if c = CHR ''%'' then
        (case s of
           a # b # t \<Rightarrow> char_of (unhex a * 16 + unhex b) # unescape_bytes mode t
         | _ \<Rightarrow> c # unescape_bytes mode s)
      else if c = CHR ''+'' \<and> mode = encodeQueryComponent then CHR '' '' # unescape_bytes mode s
      else c # unescape_bytes mode s)"

definition unescape :: "string \<Rightarrow> encoding \<Rightarrow> url_cause + string" where
  "unescape s mode =
     (case unescape_check mode s of
        Some err \<Rightarrow> Inl err
      | None \<Rightarrow> Inr (unescape_bytes mode s))"

definition QueryEscape :: "string \<Rightarrow> string" where
  "QueryEscape s = escape s encodeQueryComponent"

definition QueryUnescape :: "string \<Rightarrow> url_cause + string" where
  "QueryUnescape s = unescape s encodeQueryComponent"

subsection \<open>Query values\<close>

text \<open>
  \<open>url.Values\<close> is \<open>map[string][]string\<close>: an association list with one entry per
  key. \<open>Values_index v k\<close> is \<open>v[k]\<close> (nil, the empty list, for an absent key) and
  \<open>Values_assign v k xs\<close> is \<open>v[k] = xs\<close>.
\<close>

type_synonym Values = "(string \<times> string list) list"

definition Values_index :: "Values \<Rightarrow> string \<Rightarrow> string list" where
  "Values_index v k = (case map_of v k of None \<Rightarrow> [] | Some xs \<Rightarrow> xs)"

fun Values_assign :: "Values \<Rightarrow> string \<Rightarrow> string list \<Rightarrow> Values" where
  "Values_assign [] k xs = [(k, xs)]"
| "Values_assign (p # ps) k xs =
     (if fst p = k then (k, xs) # ps else p # Values_assign ps k xs)"

text \<open>\<open>Values.Set\<close> replaces the values of a key; \<open>Values.Get\<close> is the first value
  of a key, or the empty string.\<close>

definition Values_Set :: "Values \<Rightarrow> string \<Rightarrow> string \<Rightarrow> Values" where
  "Values_Set v key val = Values_assign v key [val]"


text \<open>\<open>Values.Encode\<close>: the pairs \<open>key=value\<close>, both query-escaped, joined by
  \<open>&\<close>, in the sorted order of the keys.\<close>

definition Values_Encode :: "Values \<Rightarrow> string" where
  "Values_Encode v =
     strings_Join
       (concat (map (\<lambda>k. map (\<lambda>x. QueryEscape k @ ''='' @ QueryEscape x) (Values_index v k))
                    (sort (map fst v))))
       ''&''"


text \<open>
  One round of the loop of \<open>parseQuery\<close> (Go 1.17 and later, where \<open>&\<close> is the only
  separator): a setting that contains a semicolon, is empty or does not unescape is
  left out; otherwise the value is appended to those of its key.
\<close>

definition parseQuery_pair :: "Values \<Rightarrow> string \<Rightarrow> Values" where
  "parseQuery_pair m key =
     (if CHR '';'' \<in> set key then m
      else if key = [] then m
      else
        (let k = (if CHR ''='' \<in> set key then before_byte CHR ''='' key else key);
             v = (if CHR ''='' \<in> set key then after_byte CHR ''='' key else [])
         in case QueryUnescape k of
              Inl _ \<Rightarrow> m
            | Inr k1 \<Rightarrow>
                (case QueryUnescape v of
                   Inl _ \<Rightarrow> m
                 | Inr v1 \<Rightarrow> Values_assign m k1 (Values_index m k1 @ [v1]))))"

function parseQuery :: "Values \<Rightarrow> string \<Rightarrow> Values" where
  "parseQuery m query =
     (if query = [] then m
      else parseQuery (parseQuery_pair m (before_byte CHR ''&'' query))
             (after_byte CHR ''&'' query))"
  by pat_completeness auto
termination
proof (relation "measure (\<lambda>(m, query). length query)")
  show "wf (measure (\<lambda>(m, query). length query))" by simp
next
  fix m :: Values and query :: string
  assume "query \<noteq> []"
  then obtain x xs where q: "query = x # xs" by (cases query) auto
  have "length (dropWhile (\<lambda>x. x \<noteq> CHR ''&'') xs) \<le> length xs"
    by (rule length_dropWhile_le)
  then have "length (after_byte CHR ''&'' query) < length query"
    by (auto simp: after_byte_def q)
  then show "((parseQuery_pair m (before_byte CHR ''&'' query), after_byte CHR ''&'' query),
              (m, query)) \<in> measure (\<lambda>(m, query). length query)"
    by simp
qed

declare parseQuery.simps [simp del]

text \<open>\<open>ParseQuery\<close> and \<open>URL.Query\<close>, which drops the error of \<open>ParseQuery\<close>.\<close>

definition ParseQuery :: "string \<Rightarrow> Values" where
  "ParseQuery query = parseQuery [] query"

subsection \<open>URLs\<close>

text \<open>
  The types \<open>url.Userinfo\<close> and \<open>url.URL\<close> with the fields of Go 1.17 (the
  release current when the script was written), \<open>url.Parse\<close>, \<open>URL.String\<close>, \<open>URL.ResolveReference\<close> and
  \<open>URL.Parse\<close>. A nil \<open>*Userinfo\<close> is \<open>None\<close>. \<open>resolvePath\<close> is
  written with \<open>strings.Split\<close>, as it was before Go 1.16; the later loop over a
  string builder computes the same path.
\<close>

record Userinfo =
  username :: string
  password :: string
  passwordSet :: bool

record URL =
  Scheme :: string
  Opaque :: string
  User :: "Userinfo option"
  Host :: string
  Path :: string
  RawPath :: string
  ForceQuery :: bool
  RawQuery :: string
  Fragment :: string
  RawFragment :: string

text \<open>A \<open>*url.Error\<close>: the operation, the URL and the cause.\<close>

datatype url_Error = url_Error string string url_cause

definition empty_URL :: URL where
  "empty_URL =
     \<lparr>Scheme = [], Opaque = [], User = None, Host = [], Path = [], RawPath = [],
      ForceQuery = False, RawQuery = [], Fragment = [], RawFragment = []\<rparr>"

definition stringContainsCTLByte :: "string \<Rightarrow> bool" where
  "stringContainsCTLByte s = (\<exists>b \<in> set s. b < CHR '' '' \<or> (of_char b :: nat) = 127)"

definition isletter :: "char \<Rightarrow> bool" where
  "isletter c = (byte_in CHR ''a'' CHR ''z'' c \<or> byte_in CHR ''A'' CHR ''Z'' c)"

definition isdigit :: "char \<Rightarrow> bool" where
  "isdigit c = (byte_in CHR ''0'' CHR ''9'' c)"

text \<open>The loop of \<open>getScheme\<close>: the length of the scheme when the text starts with
  one followed by a colon, \<open>None\<close> when it has no scheme, an error when it starts
  with a colon. \<open>first\<close> says that the byte examined is the first of the text.\<close>

fun scheme_scan :: "bool \<Rightarrow> string \<Rightarrow> url_cause + nat option" where
  "scheme_scan first [] = Inr None"
| "scheme_scan first (c # s) =
     (if isletter c then
        (case scheme_scan False s of
           Inl e \<Rightarrow> Inl e
         | Inr None \<Rightarrow> Inr None
         | Inr (Some n) \<Rightarrow> Inr (Some (Suc n)))
      else if isdigit c \<or> c = CHR ''+'' \<or> c = CHR ''-'' \<or> c = CHR ''.'' then
        (if first then Inr None
         else (case scheme_scan False s of
                 Inl e \<Rightarrow> Inl e
               | Inr None \<Rightarrow> Inr None
               | Inr (Some n) \<Rightarrow> Inr (Some (Suc n))))
      else if c = CHR '':'' then (if first then Inl MissingProtocolScheme else Inr (Some 0))
      else Inr None)"

definition getScheme :: "string \<Rightarrow> url_cause + string \<times> string" where
  "getScheme rawURL =
     (case scheme_scan True rawURL of
        Inl e \<Rightarrow> Inl e
      | Inr None \<Rightarrow> Inr ([], rawURL)
      | Inr (Some n) \<Rightarrow> Inr (take n rawURL, drop (Suc n) rawURL))"

definition toLower_byte :: "char \<Rightarrow> char" where
  "toLower_byte c =
     (if byte_in CHR ''A'' CHR ''Z'' c then char_of (of_char c + (32 :: nat)) else c)"

definition strings_ToLower :: "string \<Rightarrow> string" where
  "strings_ToLower s = map toLower_byte s"

definition validOptionalPort :: "string \<Rightarrow> bool" where
  "validOptionalPort port =
     (case port of
        [] \<Rightarrow> True
      | c # ds \<Rightarrow> c = CHR '':'' \<and> (\<forall>b \<in> set ds. isdigit b))"

text \<open>The parts of \<open>s\<close> before and after the last \<open>c\<close>
  (\<open>s[:i]\<close> and \<open>s[i+1:]\<close> for \<open>i = strings.LastIndex(s, string(c))\<close>).\<close>

definition before_last_byte :: "char \<Rightarrow> string \<Rightarrow> string" where
  "before_last_byte c s = rev (drop 1 (dropWhile (\<lambda>x. x \<noteq> c) (rev s)))"

definition after_last_byte :: "char \<Rightarrow> string \<Rightarrow> string" where
  "after_last_byte c s = rev (takeWhile (\<lambda>x. x \<noteq> c) (rev s))"

definition parseHost :: "string \<Rightarrow> url_cause + string" where
  "parseHost host =
     (if strings_HasPrefix host ''['' then
        (if CHR '']'' \<notin> set host then Inl MissingBracket
         else
           (let colonPort = after_last_byte CHR '']'' host;
                inner = before_last_byte CHR '']'' host;
                zone = strings_Index inner ''%25''
            in if \<not> validOptionalPort colonPort then Inl (InvalidPort colonPort)
               else if 0 \<le> zone then
                 (case unescape (take (nat zone) inner) encodeHost of
                    Inl e \<Rightarrow> Inl e
                  | Inr host1 \<Rightarrow>
                      (case unescape (drop (nat zone) inner) encodeZone of
                         Inl e \<Rightarrow> Inl e
                       | Inr host2 \<Rightarrow>
                           (case unescape (CHR '']'' # colonPort) encodeHost of
                              Inl e \<Rightarrow> Inl e
                            | Inr host3 \<Rightarrow> Inr (host1 @ host2 @ host3))))
               else unescape host encodeHost))
      else if CHR '':'' \<in> set host
              \<and> \<not> validOptionalPort (CHR '':'' # after_last_byte CHR '':'' host) then
        Inl (InvalidPort (CHR '':'' # after_last_byte CHR '':'' host))
      else unescape host encodeHost)"

definition validUserinfo :: "string \<Rightarrow> bool" where
  "validUserinfo s = (\<forall>r \<in> set s. isalnum r \<or> r \<in> set ''-._:~!$&'()*+,;=%@'')"

definition parseAuthority :: "string \<Rightarrow> url_cause + Userinfo option \<times> string" where
  "parseAuthority authority =
     (if CHR ''@'' \<notin> set authority then
        (case parseHost authority of Inl e \<Rightarrow> Inl e | Inr host \<Rightarrow> Inr (None, host))
      else
        (case parseHost (after_last_byte CHR ''@'' authority) of
           Inl e \<Rightarrow> Inl e
         | Inr host \<Rightarrow>
             (let userinfo = before_last_byte CHR ''@'' authority
              in if \<not> validUserinfo userinfo then Inl InvalidUserinfo
                 else if CHR '':'' \<notin> set userinfo then
                   (case unescape userinfo encodeUserPassword of
                      Inl e \<Rightarrow> Inl e
                    | Inr name \<Rightarrow>
                        Inr (Some \<lparr>username = name, password = [], passwordSet = False\<rparr>, host))
                 else
                   (case unescape (before_byte CHR '':'' userinfo) encodeUserPassword of
                      Inl e \<Rightarrow> Inl e
                    | Inr name \<Rightarrow>
                        (case unescape (after_byte CHR '':'' userinfo) encodeUserPassword of
                           Inl e \<Rightarrow> Inl e
                         | Inr pass \<Rightarrow>
                             Inr (Some \<lparr>username = name, password = pass, passwordSet = True\<rparr>,
                                  host))))))"

definition setPath :: "URL \<Rightarrow> string \<Rightarrow> url_cause + URL" where
  "setPath u p =
     (case unescape p encodePath of
        Inl e \<Rightarrow> Inl e
      | Inr path \<Rightarrow>
          Inr (u\<lparr>Path := path, RawPath := (if p = escape path encodePath then [] else p)\<rparr>))"

definition setFragment :: "URL \<Rightarrow> string \<Rightarrow> url_cause + URL" where
  "setFragment u f =
     (case unescape f encodeFragment of
        Inl e \<Rightarrow> Inl e
      | Inr frag \<Rightarrow>
          Inr (u\<lparr>Fragment := frag,
                 RawFragment := (if f = escape frag encodeFragment then [] else f)\<rparr>))"

text \<open>
  \<open>parse(rawURL, false)\<close>: the URL without its fragment. \<open>parse_after_query\<close> is
  its second half, from the test for a rootless path on: \<open>url\<close> holds the scheme
  and the query, \<open>rest\<close> is what lies between them.
\<close>

definition parse_after_query :: "URL \<Rightarrow> string \<Rightarrow> url_cause + URL" where
  "parse_after_query url rest =
     (if \<not> strings_HasPrefix rest ''/'' \<and> Scheme url \<noteq> [] then Inr (url\<lparr>Opaque := rest\<rparr>)
      else if \<not> strings_HasPrefix rest ''/''
              \<and> CHR '':'' \<in> set (before_byte CHR ''/'' rest) then
        Inl FirstPathSegmentColon
      else if (Scheme url \<noteq> [] \<or> \<not> strings_HasPrefix rest ''///'')
              \<and> strings_HasPrefix rest ''//'' then
        (let authority = before_byte CHR ''/'' (drop 2 rest);
             rest1 = dropWhile (\<lambda>x. x \<noteq> CHR ''/'') (drop 2 rest)
         in case parseAuthority authority of
              Inl e \<Rightarrow> Inl e
            | Inr (user, host) \<Rightarrow> setPath (url\<lparr>User := user, Host := host\<rparr>) rest1)
      else setPath url rest)"

definition parse :: "string \<Rightarrow> url_cause + URL" where
  "parse rawURL =
     (if stringContainsCTLByte rawURL then Inl InvalidControlCharacter
      else if rawURL = ''*'' then Inr (empty_URL\<lparr>Path := ''*''\<rparr>)
      else
        (case getScheme rawURL of
           Inl e \<Rightarrow> Inl e
         | Inr (scheme, rest0) \<Rightarrow>
             (let force = (strings_HasSuffix rest0 ''?'' \<and> count_list rest0 CHR ''?'' = 1);
                  rest = (if force then butlast rest0 else before_byte CHR ''?'' rest0);
                  url = empty_URL
                    \<lparr>Scheme := strings_ToLower scheme, ForceQuery := force,
                     RawQuery := (if force then [] else after_byte CHR ''?'' rest0)\<rparr>
              in parse_after_query url rest)))"

text \<open>\<open>url.Parse\<close>: the fragment is cut off first and set last.\<close>

definition url_Parse :: "string \<Rightarrow> url_Error + URL" where
  "url_Parse rawURL =
     (let u = before_byte CHR ''#'' rawURL;
          frag = after_byte CHR ''#'' rawURL
      in case parse u of
           Inl e \<Rightarrow> Inl (url_Error ''parse'' u e)
         | Inr url \<Rightarrow>
             if frag = [] then Inr url
             else (case setFragment url frag of
                     Inl e \<Rightarrow> Inl (url_Error ''parse'' rawURL e)
                   | Inr url' \<Rightarrow> Inr url'))"

definition validEncoded :: "string \<Rightarrow> encoding \<Rightarrow> bool" where
  "validEncoded s mode =
     (\<forall>c \<in> set s. c \<in> set ''!$&'()*+,;=:@[]%'' \<or> \<not> shouldEscape c mode)"

definition EscapedPath :: "URL \<Rightarrow> string" where
  "EscapedPath u =
     (if RawPath u \<noteq> [] \<and> validEncoded (RawPath u) encodePath
         \<and> unescape (RawPath u) encodePath = Inr (Path u) then RawPath u
      else if Path u = ''*'' then ''*''
      else escape (Path u) encodePath)"

definition EscapedFragment :: "URL \<Rightarrow> string" where
  "EscapedFragment u =
     (if RawFragment u \<noteq> [] \<and> validEncoded (RawFragment u) encodeFragment
         \<and> unescape (RawFragment u) encodeFragment = Inr (Fragment u) then RawFragment u
      else escape (Fragment u) encodeFragment)"

definition Userinfo_String :: "Userinfo \<Rightarrow> string" where
  "Userinfo_String ui =
     escape (username ui) encodeUserPassword
     @ (if passwordSet ui then '':'' @ escape (password ui) encodeUserPassword else [])"

text \<open>\<open>URL.String\<close>; \<open>buf\<close> is what has been written before the path.\<close>

definition URL_String :: "URL \<Rightarrow> string" where
  "URL_String u =
     (if Scheme u \<noteq> [] then Scheme u @ '':'' else [])
     @ (if Opaque u \<noteq> [] then Opaque u
        else
          (let buf =
                 (if Scheme u \<noteq> [] \<or> Host u \<noteq> [] \<or> User u \<noteq> None then
                    (if Host u \<noteq> [] \<or> Path u \<noteq> [] \<or> User u \<noteq> None then ''//'' else [])
                    @ (case User u of None \<Rightarrow> [] | Some ui \<Rightarrow> Userinfo_String ui @ ''@'')
                    @ (if Host u \<noteq> [] then escape (Host u) encodeHost else [])
                  else []);
               path = EscapedPath u
           in buf
              @ (if path \<noteq> [] \<and> hd path \<noteq> CHR ''/'' \<and> Host u \<noteq> [] then ''/'' else [])
              @ (if Scheme u = [] \<and> buf = [] \<and> \<not> (path \<noteq> [] \<and> hd path \<noteq> CHR ''/'' \<and> Host u \<noteq> [])
                    \<and> CHR '':'' \<in> set (before_byte CHR ''/'' path) then ''./'' else [])
              @ path))
     @ (if ForceQuery u \<or> RawQuery u \<noteq> [] then ''?'' @ RawQuery u else [])
     @ (if Fragment u \<noteq> [] then ''#'' @ EscapedFragment u else [])"

text \<open>\<open>resolvePath\<close>: the reference path against the base path, with the dot
  elements removed.\<close>

fun remove_dots :: "string list \<Rightarrow> string list \<Rightarrow> string list" where
  "remove_dots dst [] = rev dst"
| "remove_dots dst (e # src) =
     (if e = ''.'' then remove_dots dst src
      else if e = ''..'' then remove_dots (tl dst) src
      else remove_dots (e # dst) src)"

definition resolvePath :: "string \<Rightarrow> string \<Rightarrow> string" where
  "resolvePath base ref =
     (let full = (if ref = [] then base
                  else if hd ref \<noteq> CHR ''/'' then
                    (if CHR ''/'' \<in> set base then before_last_byte CHR ''/'' base @ ''/'' else [])
                    @ ref
                  else ref)
      in if full = [] then []
         else
           (let src = split_byte CHR ''/'' full;
                dst = remove_dots [] src;
                dst' = (if last src = ''.'' \<or> last src = ''..'' then dst @ [[]] else dst);
                joined = strings_Join dst' ''/''
            in ''/'' @ (if strings_HasPrefix joined ''/'' then drop 1 joined else joined)))"

text \<open>\<open>URL.ResolveReference\<close>; an error of \<open>setPath\<close> is ignored there.\<close>

definition setPath_ignore :: "URL \<Rightarrow> string \<Rightarrow> URL" where
  "setPath_ignore u p = (case setPath u p of Inl _ \<Rightarrow> u | Inr u' \<Rightarrow> u')"

definition ResolveReference :: "URL \<Rightarrow> URL \<Rightarrow> URL" where
  "ResolveReference u ref =
     (let url = (if Scheme ref = [] then ref\<lparr>Scheme := Scheme u\<rparr> else ref)
      in if Scheme ref \<noteq> [] \<or> Host ref \<noteq> [] \<or> User ref \<noteq> None then
           setPath_ignore url (resolvePath (EscapedPath ref) [])
         else if Opaque ref \<noteq> [] then url\<lparr>User := None, Host := [], Path := []\<rparr>
         else
           (let url1 =
                  (if Path ref = [] \<and> RawQuery ref = [] then
                     (if Fragment ref = [] then
                        url\<lparr>RawQuery := RawQuery u, Fragment := Fragment u,
                            RawFragment := RawFragment u\<rparr>
                      else url\<lparr>RawQuery := RawQuery u\<rparr>)
                   else url)
            in setPath_ignore (url1\<lparr>Host := Host u, User := User u\<rparr>)
                 (resolvePath (EscapedPath u) (EscapedPath ref))))"

text \<open>\<open>URL.Parse\<close>: parse the reference, then resolve it against the receiver.\<close>

definition URL_Parse :: "URL \<Rightarrow> string \<Rightarrow> url_Error + URL" where
  "URL_Parse u ref =
     (case url_Parse ref of
        Inl e \<Rightarrow> Inl e
      | Inr refURL \<Rightarrow> Inr (ResolveReference u refURL))"

text \<open>\<open>URL.Query\<close> parses \<open>RawQuery\<close> and drops the settings that do not parse.\<close>

definition URL_Query :: "URL \<Rightarrow> Values" where
  "URL_Query u = ParseQuery (RawQuery u)"

section \<open>The environment of the program\<close>

text \<open>
  A Go \<open>error\<close> is modelled by its message. \<open>Err m\<close> is an error with message
  \<open>m\<close>; \<open>Err_url p e\<close> is the error made by \<open>fmt.Errorf(p + "%v", e)\<close> from a
  \<open>*url.Error\<close> \<open>e\<close>, whose message (it quotes the URL with \<open>%q\<close>) is not
  spelled out.
\<close>

datatype error = Err string | Err_url string url_Error

text \<open>
  An \<open>http.Request\<close> as the program builds it: the method and the URL text given
  to \<open>http.NewRequestWithContext\<close> (which parses it into the field \<open>URL\<close>), the
  header, the field \<open>ContentLength\<close>, and the file that \<open>GetBody\<close> opens
  (\<open>None\<close> for a nil \<open>GetBody\<close>). The body argument is nil in both requests
  of the program. An \<open>http.Header\<close> is a \<open>map[string][]string\<close>, like
  \<open>url.Values\<close>; the three keys the program sets are in canonical form already.
\<close>

type_synonym Header = "(string \<times> string list) list"

record Request =
  req_Method :: string
  req_url :: string
  req_Header :: Header
  req_ContentLength :: int
  req_GetBody :: "string option"

definition Header_Set :: "Header \<Rightarrow> string \<Rightarrow> string \<Rightarrow> Header" where
  "Header_Set h key val = Values_assign h key [val]"


text \<open>An \<open>http.Response\<close>: \<open>Body\<close> is what \<open>io.ReadAll\<close> reads from it.\<close>

record Response =
  StatusCode :: int
  Status :: string
  Body :: string

text \<open>An \<open>fs.DirEntry\<close>.\<close>

record DirEntry =
  Name :: string
  IsDir :: bool

text \<open>
  What the program does not control: the file system, the HTTP server and the JSON
  decoder. \<open>os_Stat\<close> gives the size of a file or the message of the error;
  \<open>os_ReadDir\<close> the entries of a directory; \<open>http_Do\<close> the answer of
  \<open>http.DefaultClient.Do\<close> to a request, which may depend on the requests sent
  before; \<open>json_Decode\<close> the field \<open>UploadURL\<close> that \<open>json.Decoder.Decode\<close>
  finds in a response body, or the message of its error.
\<close>

record world =
  os_Stat :: "string \<Rightarrow> string + int"
  os_ReadDir :: "string \<Rightarrow> string + DirEntry list"
  http_Do :: "Request list \<Rightarrow> Request \<Rightarrow> string + Response"
  json_Decode :: "string \<Rightarrow> string + string"

text \<open>\<open>http.NewRequestWithContext(ctx, method, url, nil)\<close> for a valid method and
  a context that is not nil: it fails when the URL does not parse.\<close>

definition http_NewRequest :: "string \<Rightarrow> string \<Rightarrow> url_Error + Request" where
  "http_NewRequest method url =
     (case url_Parse url of
        Inl e \<Rightarrow> Inl e
      | Inr _ \<Rightarrow>
          Inr \<lparr>req_Method = method, req_url = url, req_Header = [],
               req_ContentLength = 0, req_GetBody = None\<rparr>)"

section \<open>The release script (\<open>scripts/release.go\<close>)\<close>

definition envActions :: string where "envActions = ''GITHUB_ACTIONS''"
definition envAPIURL :: string where "envAPIURL = ''GITHUB_API_URL''"
definition envRef :: string where "envRef = ''GITHUB_REF_NAME''"
definition envRepo :: string where "envRepo = ''GITHUB_REPOSITORY''"
definition envToken :: string where "envToken = ''GITHUB_TOKEN''"
definition envActionsValTrue :: string where "envActionsValTrue = ''true''"

definition contentTypeZIP :: string where "contentTypeZIP = ''application/zip''"
definition contentTypeTARGZ :: string where "contentTypeTARGZ = ''application/gzip''"

definition StatusOK :: int where "StatusOK = 200"
definition StatusCreated :: int where "StatusCreated = 201"

record client =
  baseURL :: URL
  repo :: string
  ref :: string
  token :: string

text \<open>
  The effect of the two methods on the outside is the list of the requests handed
  to \<open>http.DefaultClient.Do\<close>, oldest first: each takes the list so far and returns
  the list after it.
\<close>

definition upload ::
  "world \<Rightarrow> client \<Rightarrow> string \<Rightarrow> string \<Rightarrow> string \<Rightarrow> Request list
    \<Rightarrow> error option \<times> Request list" where
  "upload w c uploadURL path contentType sent =
     (case os_Stat w path of
        Inl err \<Rightarrow> (Some (Err (''stat asset: '' @ err)), sent)
      | Inr stat_Size \<Rightarrow>
          (let name = filepath_Base path
           in case url_Parse uploadURL of
                Inl err \<Rightarrow> (Some (Err_url ''parse url: '' err), sent)
              | Inr u0 \<Rightarrow>
                  (let q = Values_Set (URL_Query u0) ''name'' name;
                       u = u0\<lparr>RawQuery := Values_Encode q\<rparr>
                   in case http_NewRequest ''POST'' (URL_String u) of
                        Inl err \<Rightarrow> (Some (Err_url ''creating request: '' err), sent)
                      | Inr req0 \<Rightarrow>
                          (let h1 = Header_Set (req_Header req0) ''Authorization''
                                      (''token: '' @ token c);
                               h2 = Header_Set h1 ''Accept'' ''application/vnd.github.v3+json'';
                               h3 = Header_Set h2 ''Content-Type'' contentType;
                               req = req0\<lparr>req_Header := h3, req_ContentLength := stat_Size,
                                          req_GetBody := Some path\<rparr>
                           in case http_Do w sent req of
                                Inl err \<Rightarrow> (Some (Err (''do request: '' @ err)), sent @ [req])
                              | Inr resp \<Rightarrow>
                                  if StatusCode resp \<noteq> StatusCreated then
                                    (Some (Err (''unexpected status code '' @ URL_String u @ '': ''
                                                @ Status resp @ '': '' @ Body resp)),
                                     sent @ [req])
                                  else (None, sent @ [req])))))"

definition uploadURL ::
  "world \<Rightarrow> client \<Rightarrow> Request list \<Rightarrow> (error + string) \<times> Request list" where
  "uploadURL w c sent =
     (case URL_Parse (baseURL c) (path_Join [''/repos'', repo c, ''releases/tags'', ref c]) of
        Inl err \<Rightarrow> (Inl (Err_url ''parse url: '' err), sent)
      | Inr u \<Rightarrow>
          (case http_NewRequest ''GET'' (URL_String u) of
             Inl err \<Rightarrow> (Inl (Err_url ''creating request: '' err), sent)
           | Inr req0 \<Rightarrow>
               (let h1 = Header_Set (req_Header req0) ''Authorization'' (''token: '' @ token c);
                    h2 = Header_Set h1 ''Accept'' ''application/vnd.github.v3+json'';
                    req = req0\<lparr>req_Header := h2\<rparr>
                in case http_Do w sent req of
                     Inl err \<Rightarrow> (Inl (Err (''do request: '' @ err)), sent @ [req])
                   | Inr resp \<Rightarrow>
                       if StatusCode resp \<noteq> StatusOK then
                         (Inl (Err (''unexpected status code: '' @ Status resp)), sent @ [req])
                       else
                         (case json_Decode w (Body resp) of
                            Inl err \<Rightarrow> (Inl (Err (''decoding response: '' @ err)), sent @ [req])
                          | Inr body_UploadURL \<Rightarrow>
                              (let i = strings_Index body_UploadURL ''{''
                               in (Inr (if 0 \<le> i then take (nat i) body_UploadURL
                                        else body_UploadURL),
                                   sent @ [req]))))))"

text \<open>The loop over the four keys: the first one whose value is empty.\<close>

fun first_not_present :: "(string \<Rightarrow> string) \<Rightarrow> string list \<Rightarrow> string option" where
  "first_not_present env [] = None"
| "first_not_present env (key # keys) =
     (if env key = [] then Some key else first_not_present env keys)"

definition clientFromEnv :: "(string \<Rightarrow> string) \<Rightarrow> error + client" where
  "clientFromEnv env =
     (if env envActions \<noteq> envActionsValTrue then Inl (Err ''not running under github actions'')
      else
        (case first_not_present env [envAPIURL, envRef, envRepo, envToken] of
           Some key \<Rightarrow> Inl (Err (''expected environment variable not present: '' @ key))
         | None \<Rightarrow>
             (case url_Parse (env envAPIURL) of
                Inl err \<Rightarrow> Inl (Err_url ''parsing base URL: '' err)
              | Inr u \<Rightarrow>
                  Inr \<lparr>baseURL = u, repo = env envRepo, ref = env envRef,
                       token = env envToken\<rparr>)))"

definition binDir :: string where "binDir = ''./bin''"

text \<open>
  The loop of \<open>main\<close> over the directory entries. \<open>up path ct\<close> is the call
  \<open>c.upload(ctx, url, path, ct)\<close>, acting on a state; the result is the name and
  the error of the upload that failed, if one did.
\<close>

fun main_loop ::
  "(string \<Rightarrow> string \<Rightarrow> 's \<Rightarrow> error option \<times> 's) \<Rightarrow> DirEntry list \<Rightarrow> 's
    \<Rightarrow> (string \<times> error) option \<times> 's" where
  "main_loop up [] s = (None, s)"
| "main_loop up (e # es) s =
     (if IsDir e then main_loop up es s
      else
        (let name = Name e;
             ct = (if strings_HasSuffix name ''.zip'' then contentTypeZIP
                   else if strings_HasSuffix name ''.tar.gz'' then contentTypeTARGZ
                   else [])
         in if ct = [] then main_loop up es s
            else
              (case up (filepath_Join [binDir, name]) ct s of
                 (Some err, s') \<Rightarrow> (Some (name, err), s')
               | (None, s') \<Rightarrow> main_loop up es s')))"

text \<open>How the process ends: \<open>Fatalf p err\<close> is \<open>log.Fatalf(p + "%v", err)\<close>.\<close>

datatype exit = Exit0 | Fatalf string error

definition main :: "world \<Rightarrow> (string \<Rightarrow> string) \<Rightarrow> exit \<times> Request list" where
  "main w getenv =
     (case clientFromEnv getenv of
        Inl err \<Rightarrow> (Fatalf ''creating client: '' err, [])
      | Inr c \<Rightarrow>
          (case uploadURL w c [] of
             (Inl err, sent) \<Rightarrow> (Fatalf ''creating upload url: '' err, sent)
           | (Inr url, sent) \<Rightarrow>
               (case os_ReadDir w binDir of
                  Inl err \<Rightarrow> (Fatalf ''reading dir ./bin: '' (Err err), sent)
                | Inr entries \<Rightarrow>
                    (case main_loop (upload w c url) entries sent of
                       (Some (name, err), sent') \<Rightarrow>
                         (Fatalf (''upload file '' @ name @ '': '') err, sent')
                     | (None, sent') \<Rightarrow> (Exit0, sent')))))"

section \<open>The directory scan as the specification words it\<close>

text \<open>
  The content type of a file name: \<open>application/zip\<close> for a name that ends in
  \<open>.zip\<close>, \<open>application/gzip\<close> for one that ends in \<open>.tar.gz\<close>, none otherwise.
  \<open>spec_uploads\<close> lists, in the order of the listing, the path and content type of
  every entry that is not a directory and has a content type.
\<close>

definition spec_content_type :: "string \<Rightarrow> string option" where
  "spec_content_type name =
     (if suffix ''.zip'' name then Some ''application/zip''
      else if suffix ''.tar.gz'' name then Some ''application/gzip''
      else None)"

definition spec_uploads :: "DirEntry list \<Rightarrow> (string \<times> string) list" where
  "spec_uploads entries =
     concat (map (\<lambda>e. case spec_content_type (Name e) of
                          None \<Rightarrow> []
                        | Some ct \<Rightarrow> [(filepath_Join [binDir, Name e], ct)])
                 (filter (\<lambda>e. \<not> IsDir e) entries))"

text \<open>
  \<open>recording up\<close> runs \<open>up\<close> and notes the call: beside the state of \<open>up\<close> it
  keeps the list of the paths and content types \<open>up\<close> has been called with.
\<close>

definition recording ::
  "(string \<Rightarrow> string \<Rightarrow> 's \<Rightarrow> error option \<times> 's) \<Rightarrow> string \<Rightarrow> string
    \<Rightarrow> 's \<times> (string \<times> string) list \<Rightarrow> error option \<times> 's \<times> (string \<times> string) list" where
  "recording up path ct = (\<lambda>(s, calls). case up path ct s of (r, s') \<Rightarrow> (r, s', calls @ [(path, ct)]))"

section \<open>Configurations for which the lookup URL is the template\<close>




section \<open>Example inputs\<close>

text \<open>
  A run on the public API: the variables of the workflow, the client they give, a
  directory with two archives, a text file and a subdirectory, and a server that
  answers the lookup with 200 and every upload with 201.
\<close>

definition ex_env :: "string \<Rightarrow> string" where
  "ex_env key =
     (if key = ''GITHUB_ACTIONS'' then ''true''
      else if key = ''GITHUB_API_URL'' then ''https://api.github.com''
      else if key = ''GITHUB_REF_NAME'' then ''v1.0''
      else if key = ''GITHUB_REPOSITORY'' then ''o/n''
      else if key = ''GITHUB_TOKEN'' then ''secret''
      else [])"

definition ex_client :: client where
  "ex_client =
     \<lparr>baseURL = empty_URL\<lparr>Scheme := ''https'', Host := ''api.github.com''\<rparr>,
      repo = ''o/n'', ref = ''v1.0'', token = ''secret''\<rparr>"

definition ex_template :: string where
  "ex_template = ''https://uploads.github.com/repos/o/n/releases/1/assets{?name,label}''"

definition ex_upload_url :: string where
  "ex_upload_url = ''https://uploads.github.com/repos/o/n/releases/1/assets''"

definition ex_entries :: "DirEntry list" where
  "ex_entries =
     [\<lparr>Name = ''a.zip'', IsDir = False\<rparr>, \<lparr>Name = ''b.tar.gz'', IsDir = False\<rparr>,
      \<lparr>Name = ''c.txt'', IsDir = False\<rparr>, \<lparr>Name = ''d'', IsDir = True\<rparr>]"

definition ex_world :: world where
  "ex_world =
     \<lparr>os_Stat = (\<lambda>p. if p = ''bin/a.zip'' then Inr 10
                      else if p = ''bin/b.tar.gz'' then Inr 20
                      else Inl ''no such file or directory''),
      os_ReadDir = (\<lambda>d. Inr ex_entries),
      http_Do = (\<lambda>sent req.
                   if req_Method req = ''GET''
                   then Inr \<lparr>StatusCode = 200, Status = ''200 OK'', Body = ''{}''\<rparr>
                   else Inr \<lparr>StatusCode = 201, Status = ''201 Created'', Body = []\<rparr>),
      json_Decode = (\<lambda>b. Inr ex_template)\<rparr>"

text \<open>The requests of that run.\<close>

definition ex_lookup_request :: Request where
  "ex_lookup_request =
     \<lparr>req_Method = ''GET'',
      req_url = ''https://api.github.com/repos/o/n/releases/tags/v1.0'',
      req_Header = [(''Authorization'', [''token: secret'']),
                    (''Accept'', [''application/vnd.github.v3+json''])],
      req_ContentLength = 0, req_GetBody = None\<rparr>"

definition ex_zip_request :: Request where
  "ex_zip_request =
     \<lparr>req_Method = ''POST'',
      req_url = ''https://uploads.github.com/repos/o/n/releases/1/assets?name=a.zip'',
      req_Header = [(''Authorization'', [''token: secret'']),
                    (''Accept'', [''application/vnd.github.v3+json'']),
                    (''Content-Type'', [''application/zip''])],
      req_ContentLength = 10, req_GetBody = Some ''bin/a.zip''\<rparr>"

definition ex_targz_request :: Request where
  "ex_targz_request =
     \<lparr>req_Method = ''POST'',
      req_url = ''https://uploads.github.com/repos/o/n/releases/1/assets?name=b.tar.gz'',
      req_Header = [(''Authorization'', [''token: secret'']),
                    (''Accept'', [''application/vnd.github.v3+json'']),
                    (''Content-Type'', [''application/gzip''])],
      req_ContentLength = 20, req_GetBody = Some ''bin/b.tar.gz''\<rparr>"

definition ex_refusal :: error where
  "ex_refusal =
     Err (''unexpected status code '' @ req_url ex_zip_request
          @ '': 422 Unprocessable Entity: '' @ ''already_exists'')"

text \<open>A server that refuses every upload with 422, and a lookup whose answer has no
  template.\<close>

definition ex_world_refusing :: world where
  "ex_world_refusing =
     ex_world\<lparr>http_Do := (\<lambda>sent req.
       if req_Method req = ''GET''
       then Inr \<lparr>StatusCode = 200, Status = ''200 OK'', Body = ''{}''\<rparr>
       else Inr \<lparr>StatusCode = 422, Status = ''422 Unprocessable Entity'',
                 Body = ''already_exists''\<rparr>)\<rparr>"

definition ex_world_plain :: world where
  "ex_world_plain = ex_world\<lparr>json_Decode := (\<lambda>b. Inr ex_upload_url)\<rparr>"



section \<open>Properties of the library functions\<close>

lemma strings_HasSuffix_suffix: "strings_HasSuffix s suff \<longleftrightarrow> suffix suff s"
proof
  assume "strings_HasSuffix s suff"
  then have "s = take (length s - length suff) s @ suff"
    by (metis append_take_drop_id strings_HasSuffix_def)
  then show "suffix suff s" by (metis suffixI)
next
  assume "suffix suff s"
  then obtain zs where "s = zs @ suff" by (auto simp: suffix_def)
  then show "strings_HasSuffix s suff" by (simp add: strings_HasSuffix_def)
qed

lemma strings_Index_byte_nonneg: "0 \<le> strings_Index s [c] \<longleftrightarrow> c \<in> set s"
  by (induction s) (auto simp: Let_def)

lemma strings_Index_byte_take:
  "c \<in> set s \<Longrightarrow> take (nat (strings_Index s [c])) s = takeWhile (\<lambda>x. x \<noteq> c) s"
proof (induction s)
  case Nil
  then show ?case by simp
next
  case (Cons a s)
  show ?case
  proof (cases "a = c")
    case True
    then show ?thesis by simp
  next
    case False
    with Cons.prems have "c \<in> set s" by simp
    then have "0 \<le> strings_Index s [c]" by (simp add: strings_Index_byte_nonneg)
    with False Cons.IH[OF \<open>c \<in> set s\<close>] show ?thesis
      by (simp add: Let_def nat_add_distrib)
  qed
qed

subsection \<open>Query escaping and parsing\<close>



























subsection \<open>Cleaning and resolving paths\<close>














subsection \<open>Parsing a reference that starts with one slash\<close>


















subsection \<open>The query in the text of a URL\<close>

























section \<open>What the two requests are and what they return\<close>

text \<open>When the lookup has sent a request, its result is decided by the answer.\<close>

lemma uploadURL_sent:
  assumes "uploadURL w c sent = (res, sent @ [req])"
  shows "res = (case http_Do w sent req of
                  Inl err \<Rightarrow> Inl (Err (''do request: '' @ err))
                | Inr resp \<Rightarrow>
                    if StatusCode resp \<noteq> StatusOK then
                      Inl (Err (''unexpected status code: '' @ Status resp))
                    else
                      (case json_Decode w (Body resp) of
                         Inl err \<Rightarrow> Inl (Err (''decoding response: '' @ err))
                       | Inr t \<Rightarrow>
                           Inr (if 0 \<le> strings_Index t ''{''
                                then take (nat (strings_Index t ''{'')) t else t)))"
proof (cases "URL_Parse (baseURL c) (path_Join [''/repos'', repo c, ''releases/tags'', ref c])")
  case (Inl e)
  with assms show ?thesis by (simp add: uploadURL_def)
next
  case (Inr u)
  note u = this
  show ?thesis
  proof (cases "http_NewRequest ''GET'' (URL_String u)")
    case (Inl e)
    with assms u show ?thesis by (simp add: uploadURL_def)
  next
    case (Inr req0)
    define req' where "req' = req0\<lparr>req_Header :=
            Header_Set (Header_Set (req_Header req0) ''Authorization'' (''token: '' @ token c))
             ''Accept'' ''application/vnd.github.v3+json''\<rparr>"
    have "snd (uploadURL w c sent) = sent @ [req']"
      by (simp add: uploadURL_def u Inr Let_def req'_def split: sum.split)
    with assms have req: "req' = req" by simp
    have "fst (uploadURL w c sent) = (case http_Do w sent req' of
                  Inl err \<Rightarrow> Inl (Err (''do request: '' @ err))
                | Inr resp \<Rightarrow>
                    if StatusCode resp \<noteq> StatusOK then
                      Inl (Err (''unexpected status code: '' @ Status resp))
                    else
                      (case json_Decode w (Body resp) of
                         Inl err \<Rightarrow> Inl (Err (''decoding response: '' @ err))
                       | Inr t \<Rightarrow>
                           Inr (if 0 \<le> strings_Index t ''{''
                                then take (nat (strings_Index t ''{'')) t else t)))"
      by (simp add: uploadURL_def u Inr Let_def req'_def split: sum.split)
    with assms req show ?thesis by simp
  qed
qed

lemma uploadURL_answered:
  assumes "uploadURL w c sent = (res, sent @ [req])"
    and "http_Do w sent req = Inr resp"
    and "StatusCode resp = 200"
    and "json_Decode w (Body resp) = Inr t"
  shows "res = Inr (if 0 \<le> strings_Index t ''{'' then take (nat (strings_Index t ''{'')) t else t)"
  using uploadURL_sent[OF assms(1)] assms(2-4) by (simp add: StatusOK_def)

text \<open>When an upload has sent a request: the file was found, the upload URL
  parsed, the request is the one below and the result is decided by the answer.\<close>

lemma upload_sent:
  assumes "upload w c url path contentType sent = (res, sent @ [req])"
  shows "\<exists>n u0. os_Stat w path = Inr n \<and> url_Parse url = Inr u0
           \<and> req = \<lparr>req_Method = ''POST'',
                    req_url = URL_String (u0\<lparr>RawQuery :=
                      Values_Encode (Values_Set (URL_Query u0) ''name'' (filepath_Base path))\<rparr>),
                    req_Header =
                      Header_Set (Header_Set (Header_Set [] ''Authorization''
                        (''token: '' @ token c)) ''Accept'' ''application/vnd.github.v3+json'')
                        ''Content-Type'' contentType,
                    req_ContentLength = n, req_GetBody = Some path\<rparr>
           \<and> res = (case http_Do w sent req of
                      Inl err \<Rightarrow> Some (Err (''do request: '' @ err))
                    | Inr resp \<Rightarrow>
                        if StatusCode resp \<noteq> StatusCreated then
                          Some (Err (''unexpected status code '' @ req_url req @ '': ''
                                     @ Status resp @ '': '' @ Body resp))
                        else None)"
proof (cases "os_Stat w path")
  case (Inl e)
  with assms show ?thesis by (simp add: upload_def)
next
  case (Inr n)
  note n = this
  show ?thesis
  proof (cases "url_Parse url")
    case (Inl e)
    with assms n show ?thesis by (simp add: upload_def)
  next
    case (Inr u0)
    note u0 = this
    define u where "u = u0\<lparr>RawQuery :=
        Values_Encode (Values_Set (URL_Query u0) ''name'' (filepath_Base path))\<rparr>"
    show ?thesis
    proof (cases "url_Parse (URL_String u)")
      case (Inl e)
      with assms n u0 show ?thesis by (simp add: upload_def http_NewRequest_def u_def)
    next
      case (Inr u1)
      define req' where "req' = \<lparr>req_Method = ''POST'', req_url = URL_String u,
                    req_Header =
                      Header_Set (Header_Set (Header_Set [] ''Authorization''
                        (''token: '' @ token c)) ''Accept'' ''application/vnd.github.v3+json'')
                        ''Content-Type'' contentType,
                    req_ContentLength = n, req_GetBody = Some path\<rparr>"
      have "snd (upload w c url path contentType sent) = sent @ [req']"
        by (simp add: upload_def n u0 Inr[unfolded u_def] http_NewRequest_def Let_def
            req'_def u_def split: sum.split)
      with assms have req: "req = req'" by simp
      have "fst (upload w c url path contentType sent) =
              (case http_Do w sent req' of
                      Inl err \<Rightarrow> Some (Err (''do request: '' @ err))
                    | Inr resp \<Rightarrow>
                        if StatusCode resp \<noteq> StatusCreated then
                          Some (Err (''unexpected status code '' @ req_url req' @ '': ''
                                     @ Status resp @ '': '' @ Body resp))
                        else None)"
        by (simp add: upload_def n u0 Inr[unfolded u_def] http_NewRequest_def Let_def
            req'_def u_def split: sum.split)
      with assms have res: "res = (case http_Do w sent req' of
                      Inl err \<Rightarrow> Some (Err (''do request: '' @ err))
                    | Inr resp \<Rightarrow>
                        if StatusCode resp \<noteq> StatusCreated then
                          Some (Err (''unexpected status code '' @ req_url req' @ '': ''
                                     @ Status resp @ '': '' @ Body resp))
                        else None)" by simp
      show ?thesis
        unfolding req
        by (rule exI[of _ n], rule exI[of _ u0]) (simp add: n u0 res, simp add: req'_def u_def)
    qed
  qed
qed

text \<open>An upload sends at most one request, and none only when it fails.\<close>

lemma upload_snd:
  "snd (upload w c url path contentType sent) = sent
   \<and> fst (upload w c url path contentType sent) \<noteq> None
   \<or> (\<exists>req. snd (upload w c url path contentType sent) = sent @ [req])"
  by (simp add: upload_def Let_def split: sum.split)


text \<open>The example run, evaluated.\<close>

lemma ex_lookup:
  "uploadURL ex_world ex_client [] = (Inr ex_upload_url, [] @ [ex_lookup_request])"
  by code_simp

lemma ex_lookup_plain:
  "uploadURL ex_world_plain ex_client [] = (Inr ex_upload_url, [] @ [ex_lookup_request])"
  by code_simp

lemma ex_upload:
  "upload ex_world ex_client ex_upload_url ''bin/a.zip'' ''application/zip'' []
   = (None, [] @ [ex_zip_request])"
  by code_simp

lemma ex_upload_refused:
  "upload ex_world_refusing ex_client ex_upload_url ''bin/a.zip'' ''application/zip'' []
   = (Some ex_refusal, [] @ [ex_zip_request])"
  by code_simp

lemma ex_main:
  "main ex_world ex_env = (Exit0, [ex_lookup_request, ex_zip_request, ex_targz_request])"
  by code_simp

lemma ex_main_refused:
  "main ex_world_refusing ex_env
   = (Fatalf ''upload file a.zip: '' ex_refusal, [ex_lookup_request, ex_zip_request])"
  by code_simp

section \<open>The URL of the lookup\<close>









section \<open>The loop over the directory entries\<close>

text \<open>What one round of the loop does with an entry.\<close>

lemma main_loop_skip:
  "IsDir e \<or> spec_content_type (Name e) = None \<Longrightarrow> main_loop up (e # es) s = main_loop up es s"
  by (auto simp: spec_content_type_def strings_HasSuffix_suffix contentTypeZIP_def
      contentTypeTARGZ_def Let_def split: if_splits)

lemma main_loop_upload:
  "\<not> IsDir e \<Longrightarrow> spec_content_type (Name e) = Some ct \<Longrightarrow>
   main_loop up (e # es) s =
     (case up (filepath_Join [binDir, Name e]) ct s of
        (Some err, s') \<Rightarrow> (Some (Name e, err), s')
      | (None, s') \<Rightarrow> main_loop up es s')"
  by (auto simp: spec_content_type_def strings_HasSuffix_suffix contentTypeZIP_def
      contentTypeTARGZ_def Let_def split: if_splits)

lemma spec_uploads_skip:
  "IsDir e \<or> spec_content_type (Name e) = None \<Longrightarrow> spec_uploads (e # es) = spec_uploads es"
  by (auto simp: spec_uploads_def)

lemma spec_uploads_upload:
  "\<not> IsDir e \<Longrightarrow> spec_content_type (Name e) = Some ct \<Longrightarrow>
   spec_uploads (e # es) = (filepath_Join [binDir, Name e], ct) # spec_uploads es"
  by (auto simp: spec_uploads_def)

text \<open>The calls of a run are a prefix of \<open>spec_uploads\<close>, and all of it when no
  upload fails.\<close>

lemma main_loop_recording:
  "main_loop (recording up) entries (s, calls) = (res, s', calls')
   \<Longrightarrow> \<exists>new. calls' = calls @ new \<and> prefix new (spec_uploads entries)
            \<and> (res = None \<longrightarrow> new = spec_uploads entries)"
proof (induction entries arbitrary: s calls)
  case Nil
  then show ?case by (simp add: spec_uploads_def)
next
  case (Cons e es)
  show ?case
  proof (cases "IsDir e \<or> spec_content_type (Name e) = None")
    case True
    with Cons.prems have "main_loop (recording up) es (s, calls) = (res, s', calls')"
      by (simp only: main_loop_skip)
    from Cons.IH[OF this] True show ?thesis by (simp only: spec_uploads_skip)
  next
    case False
    then obtain ct where e: "\<not> IsDir e" "spec_content_type (Name e) = Some ct" by auto
    let ?p = "filepath_Join [binDir, Name e]"
    obtain r s1 where up: "up ?p ct s = (r, s1)" by (cases "up ?p ct s")
    then have rec: "recording up ?p ct (s, calls) = (r, s1, calls @ [(?p, ct)])"
      by (simp add: recording_def)
    show ?thesis
    proof (cases r)
      case None
      with Cons.prems rec e
      have "main_loop (recording up) es (s1, calls @ [(?p, ct)]) = (res, s', calls')"
        by (simp add: main_loop_upload del: main_loop.simps)
      from Cons.IH[OF this] obtain new where
        new: "calls' = (calls @ [(?p, ct)]) @ new" "prefix new (spec_uploads es)"
          "res = None \<longrightarrow> new = spec_uploads es" by blast
      show ?thesis
        by (rule exI[of _ "(?p, ct) # new"]) (use new e in \<open>simp add: spec_uploads_upload\<close>)
    next
      case (Some err)
      with Cons.prems rec e have "res = Some (Name e, err)" "calls' = calls @ [(?p, ct)]"
        by (simp_all add: main_loop_upload del: main_loop.simps)
      then show ?thesis
        by (intro exI[of _ "[(?p, ct)]"]) (use e in \<open>simp add: spec_uploads_upload\<close>)
    qed
  qed
qed

text \<open>Recording does not change the run.\<close>

lemma main_loop_recording_erase:
  "main_loop (recording up) entries (s, calls) = (res, s', calls')
   \<Longrightarrow> main_loop up entries s = (res, s')"
proof (induction entries arbitrary: s calls)
  case Nil
  then show ?case by simp
next
  case (Cons e es)
  show ?case
  proof (cases "IsDir e \<or> spec_content_type (Name e) = None")
    case True
    with Cons.prems have "main_loop (recording up) es (s, calls) = (res, s', calls')"
      by (simp only: main_loop_skip)
    from Cons.IH[OF this] True show ?thesis by (simp only: main_loop_skip)
  next
    case False
    then obtain ct where e: "\<not> IsDir e" "spec_content_type (Name e) = Some ct" by auto
    let ?p = "filepath_Join [binDir, Name e]"
    obtain r s1 where up: "up ?p ct s = (r, s1)" by (cases "up ?p ct s")
    then have rec: "recording up ?p ct (s, calls) = (r, s1, calls @ [(?p, ct)])"
      by (simp add: recording_def)
    show ?thesis
    proof (cases r)
      case None
      with Cons.prems rec e
      have "main_loop (recording up) es (s1, calls @ [(?p, ct)]) = (res, s', calls')"
        by (simp add: main_loop_upload del: main_loop.simps)
      from Cons.IH[OF this] up None e show ?thesis
        by (simp add: main_loop_upload del: main_loop.simps)
    next
      case (Some err)
      with Cons.prems rec e up show ?thesis
        by (simp add: main_loop_upload del: main_loop.simps)
    qed
  qed
qed

text \<open>A run over a first part that ends without error continues with the rest.\<close>

lemma main_loop_append:
  "main_loop up es1 s = (None, s1) \<Longrightarrow> main_loop up (es1 @ es2) s = main_loop up es2 s1"
proof (induction es1 arbitrary: s)
  case Nil
  then show ?case by simp
next
  case (Cons e es)
  show ?case
  proof (cases "IsDir e \<or> spec_content_type (Name e) = None")
    case True
    with Cons.prems have "main_loop up es s = (None, s1)" by (simp only: main_loop_skip)
    from Cons.IH[OF this] True show ?thesis by (simp only: main_loop_skip append_Cons)
  next
    case False
    then obtain ct where e: "\<not> IsDir e" "spec_content_type (Name e) = Some ct" by auto
    let ?p = "filepath_Join [binDir, Name e]"
    obtain r s' where up: "up ?p ct s = (r, s')" by (cases "up ?p ct s")
    show ?thesis
    proof (cases r)
      case None
      with Cons.prems up e have "main_loop up es s' = (None, s1)"
        by (simp add: main_loop_upload del: main_loop.simps)
      from Cons.IH[OF this] up None e show ?thesis
        by (simp add: main_loop_upload del: main_loop.simps)
    next
      case (Some err)
      with Cons.prems up e show ?thesis
        by (simp add: main_loop_upload del: main_loop.simps)
    qed
  qed
qed

section \<open>The claims\<close>

text \<open>
  C3. When the lookup has sent its request and the answer has status 200 and a body
  whose upload URL template \<open>t\<close> contains an opening brace, the lookup returns the
  part of \<open>t\<close> strictly before the first opening brace.
\<close>

theorem uploadURL_truncates:
  assumes "uploadURL w c sent = (res, sent @ [req])"
    and "http_Do w sent req = Inr resp"
    and "StatusCode resp = 200"
    and "json_Decode w (Body resp) = Inr t"
    and "CHR ''{'' \<in> set t"
  shows "\<exists>r rest. res = Inr r \<and> t = r @ CHR ''{'' # rest \<and> CHR ''{'' \<notin> set r"
proof -
  let ?r = "takeWhile (\<lambda>x. x \<noteq> CHR ''{'') t"
  let ?d = "dropWhile (\<lambda>x. x \<noteq> CHR ''{'') t"
  have "res = Inr ?r"
    using uploadURL_answered[OF assms(1-4)] assms(5)
    by (simp add: strings_Index_byte_nonneg strings_Index_byte_take)
  moreover have "?d \<noteq> []" using assms(5) by simp
  then have "?d = CHR ''{'' # tl ?d"
    using hd_dropWhile[of "\<lambda>x. x \<noteq> CHR ''{''" t] by (cases ?d) auto
  then have "t = ?r @ CHR ''{'' # tl ?d"
    using takeWhile_dropWhile_id[of "\<lambda>x. x \<noteq> CHR ''{''" t] by simp
  moreover have "CHR ''{'' \<notin> set ?r"
    by (auto dest: set_takeWhileD)
  ultimately show ?thesis by blast
qed

theorem uploadURL_truncates_witness:
  "uploadURL ex_world ex_client [] = (Inr ex_upload_url, [] @ [ex_lookup_request])
   \<and> http_Do ex_world [] ex_lookup_request
       = Inr \<lparr>StatusCode = 200, Status = ''200 OK'', Body = ''{}''\<rparr>
   \<and> json_Decode ex_world ''{}'' = Inr ex_template
   \<and> CHR ''{'' \<in> set ex_template
   \<and> (\<exists>r rest. Inr ex_upload_url = (Inr r :: error + string)
         \<and> ex_template = r @ CHR ''{'' # rest \<and> CHR ''{'' \<notin> set r)"
proof -
  let ?resp = "\<lparr>StatusCode = 200, Status = ''200 OK'', Body = ''{}''\<rparr>"
  have h2: "http_Do ex_world [] ex_lookup_request = Inr ?resp" by code_simp
  have h3: "StatusCode ?resp = 200" by simp
  have h4: "json_Decode ex_world (Body ?resp) = Inr ex_template" by code_simp
  have h5: "CHR ''{'' \<in> set ex_template" by code_simp
  show ?thesis
    using uploadURL_truncates[OF ex_lookup h2 h3 h4 h5] ex_lookup h2 h4 h5 by simp
qed




text \<open>
  C9. When the lookup has sent its request and the answer has status 200 and a body
  whose upload URL template contains no opening brace, the lookup returns the
  template unchanged.
\<close>

theorem uploadURL_no_brace:
  assumes "uploadURL w c sent = (res, sent @ [req])"
    and "http_Do w sent req = Inr resp"
    and "StatusCode resp = 200"
    and "json_Decode w (Body resp) = Inr t"
    and "CHR ''{'' \<notin> set t"
  shows "res = Inr t"
  using uploadURL_answered[OF assms(1-4)] assms(5)
  by (simp add: strings_Index_byte_nonneg)

theorem uploadURL_no_brace_witness:
  "uploadURL ex_world_plain ex_client [] = (Inr ex_upload_url, [] @ [ex_lookup_request])
   \<and> http_Do ex_world_plain [] ex_lookup_request
       = Inr \<lparr>StatusCode = 200, Status = ''200 OK'', Body = ''{}''\<rparr>
   \<and> json_Decode ex_world_plain ''{}'' = Inr ex_upload_url
   \<and> CHR ''{'' \<notin> set ex_upload_url"
proof -
  let ?resp = "\<lparr>StatusCode = 200, Status = ''200 OK'', Body = ''{}''\<rparr>"
  have h2: "http_Do ex_world_plain [] ex_lookup_request = Inr ?resp" by code_simp
  have h3: "StatusCode ?resp = 200" by simp
  have h4: "json_Decode ex_world_plain (Body ?resp) = Inr ex_upload_url" by code_simp
  have h5: "CHR ''{'' \<notin> set ex_upload_url" by code_simp
  show ?thesis
    using uploadURL_no_brace[OF ex_lookup_plain h2 h3 h4 h5] ex_lookup_plain h2 h4 h5 by simp
qed

text \<open>
  C5. When \<open>GITHUB_ACTIONS\<close> is unset (the lookup gives the empty string) or has any
  value other than \<open>true\<close>, \<open>clientFromEnv\<close> returns the error "not running under
  github actions", whatever the other variables are.
\<close>

theorem clientFromEnv_not_running:
  "env ''GITHUB_ACTIONS'' \<noteq> ''true''
   \<Longrightarrow> clientFromEnv env = Inl (Err ''not running under github actions'')"
  by (simp add: clientFromEnv_def envActions_def envActionsValTrue_def)

theorem clientFromEnv_not_running_witness:
  "(ex_env(''GITHUB_ACTIONS'' := ''TRUE'')) ''GITHUB_ACTIONS'' \<noteq> ''true''
   \<and> clientFromEnv (ex_env(''GITHUB_ACTIONS'' := ''TRUE''))
       = Inl (Err ''not running under github actions'')"
proof -
  have h: "(ex_env(''GITHUB_ACTIONS'' := ''TRUE'')) ''GITHUB_ACTIONS'' \<noteq> ''true''" by simp
  show ?thesis
    using clientFromEnv_not_running[of "ex_env(''GITHUB_ACTIONS'' := ''TRUE'')", OF h] h by simp
qed

text \<open>
  C6. With \<open>GITHUB_ACTIONS\<close> equal to \<open>true\<close>: when one of \<open>GITHUB_API_URL\<close>,
  \<open>GITHUB_REF_NAME\<close>, \<open>GITHUB_REPOSITORY\<close>, \<open>GITHUB_TOKEN\<close> is empty, the error names
  the first of them, in this order, that is empty; when none is empty and the base
  URL parses, the result is the client made of the four values.
\<close>

theorem clientFromEnv_required:
  assumes "env ''GITHUB_ACTIONS'' = ''true''"
  shows "(find (\<lambda>key. env key = [])
            [''GITHUB_API_URL'', ''GITHUB_REF_NAME'', ''GITHUB_REPOSITORY'', ''GITHUB_TOKEN'']
          = Some key
          \<longrightarrow> clientFromEnv env
              = Inl (Err (''expected environment variable not present: '' @ key)))
       \<and> (env ''GITHUB_API_URL'' \<noteq> [] \<and> env ''GITHUB_REF_NAME'' \<noteq> []
          \<and> env ''GITHUB_REPOSITORY'' \<noteq> [] \<and> env ''GITHUB_TOKEN'' \<noteq> []
          \<and> url_Parse (env ''GITHUB_API_URL'') = Inr u
          \<longrightarrow> clientFromEnv env
              = Inr \<lparr>baseURL = u, repo = env ''GITHUB_REPOSITORY'',
                     ref = env ''GITHUB_REF_NAME'', token = env ''GITHUB_TOKEN''\<rparr>)"
  using assms
  by (auto simp: clientFromEnv_def envActions_def envActionsValTrue_def envAPIURL_def
      envRef_def envRepo_def envToken_def split: if_splits)

theorem clientFromEnv_required_witness:
  "ex_env ''GITHUB_ACTIONS'' = ''true''
   \<and> (ex_env(''GITHUB_REF_NAME'' := [], ''GITHUB_TOKEN'' := [])) ''GITHUB_ACTIONS'' = ''true''
   \<and> find (\<lambda>key. (ex_env(''GITHUB_REF_NAME'' := [], ''GITHUB_TOKEN'' := [])) key = [])
        [''GITHUB_API_URL'', ''GITHUB_REF_NAME'', ''GITHUB_REPOSITORY'', ''GITHUB_TOKEN'']
      = Some ''GITHUB_REF_NAME''
   \<and> clientFromEnv (ex_env(''GITHUB_REF_NAME'' := [], ''GITHUB_TOKEN'' := []))
       = Inl (Err ''expected environment variable not present: GITHUB_REF_NAME'')
   \<and> url_Parse (ex_env ''GITHUB_API_URL'') = Inr (baseURL ex_client)
   \<and> clientFromEnv ex_env = Inr ex_client"
proof -
  let ?env = "ex_env(''GITHUB_REF_NAME'' := [], ''GITHUB_TOKEN'' := [])"
  have a1: "?env ''GITHUB_ACTIONS'' = ''true''" by (simp add: ex_env_def)
  have f1: "find (\<lambda>key. ?env key = [])
        [''GITHUB_API_URL'', ''GITHUB_REF_NAME'', ''GITHUB_REPOSITORY'', ''GITHUB_TOKEN'']
      = Some ''GITHUB_REF_NAME''" by (simp add: ex_env_def)
  have a2: "ex_env ''GITHUB_ACTIONS'' = ''true''" by (simp add: ex_env_def)
  have n2: "ex_env ''GITHUB_API_URL'' \<noteq> [] \<and> ex_env ''GITHUB_REF_NAME'' \<noteq> []
          \<and> ex_env ''GITHUB_REPOSITORY'' \<noteq> [] \<and> ex_env ''GITHUB_TOKEN'' \<noteq> []"
    by (simp add: ex_env_def)
  have p2: "url_Parse (ex_env ''GITHUB_API_URL'') = Inr (baseURL ex_client)" by code_simp
  have e2: "\<lparr>baseURL = baseURL ex_client, repo = ex_env ''GITHUB_REPOSITORY'',
             ref = ex_env ''GITHUB_REF_NAME'', token = ex_env ''GITHUB_TOKEN''\<rparr> = ex_client"
    by (simp add: ex_env_def ex_client_def)
  from clientFromEnv_required[of ?env "''GITHUB_REF_NAME''", OF a1] f1
  have r1: "clientFromEnv ?env
       = Inl (Err ''expected environment variable not present: GITHUB_REF_NAME'')" by simp
  from clientFromEnv_required[of ex_env _ "baseURL ex_client", OF a2] n2 p2 e2
  have r2: "clientFromEnv ex_env = Inr ex_client" by simp
  from a1 a2 f1 p2 r1 r2 show ?thesis by simp
qed



text \<open>
  C8. \<open>upload\<close> returns no error exactly when it has sent its request and the
  answer has status 201; for an answer with any other status it returns an error
  whose message ends with the response body.
\<close>

theorem upload_status:
  assumes "upload w c url path contentType sent = (res, sent')"
  shows "(res = None \<longleftrightarrow>
            (\<exists>req resp. sent' = sent @ [req] \<and> http_Do w sent req = Inr resp
                        \<and> StatusCode resp = 201))
       \<and> (\<forall>req resp. sent' = sent @ [req] \<longrightarrow> http_Do w sent req = Inr resp
            \<longrightarrow> StatusCode resp \<noteq> 201
            \<longrightarrow> (\<exists>text. res = Some (Err (text @ Body resp))))"
proof -
  from upload_snd[of w c url path contentType sent] assms
  consider (unsent) "sent' = sent" "res \<noteq> None" | (sent) req where "sent' = sent @ [req]"
    by auto
  then show ?thesis
  proof cases
    case unsent
    then show ?thesis by simp
  next
    case sent
    from upload_sent[OF assms[unfolded sent]]
    have res: "res = (case http_Do w sent req of
                      Inl err \<Rightarrow> Some (Err (''do request: '' @ err))
                    | Inr resp \<Rightarrow>
                        if StatusCode resp \<noteq> StatusCreated then
                          Some (Err (''unexpected status code '' @ req_url req @ '': ''
                                     @ Status resp @ '': '' @ Body resp))
                        else None)" by blast
    show ?thesis
    proof (cases "http_Do w sent req")
      case (Inl e)
      with res sent show ?thesis by simp
    next
      case (Inr resp)
      show ?thesis
      proof (cases "StatusCode resp = 201")
        case True
        with res sent Inr show ?thesis by (simp add: StatusCreated_def)
      next
        case False
        with res Inr have "res = Some (Err ((''unexpected status code '' @ req_url req @ '': ''
                                     @ Status resp @ '': '') @ Body resp))"
          by (simp add: StatusCreated_def)
        with False sent Inr show ?thesis by (simp del: append_assoc)
      qed
    qed
  qed
qed

theorem upload_status_witness:
  "upload ex_world ex_client ex_upload_url ''bin/a.zip'' ''application/zip'' []
     = (None, [] @ [ex_zip_request])
   \<and> (\<exists>req resp. [] @ [ex_zip_request] = [] @ [req] \<and> http_Do ex_world [] req = Inr resp
          \<and> StatusCode resp = 201)
   \<and> upload ex_world_refusing ex_client ex_upload_url ''bin/a.zip'' ''application/zip'' []
     = (Some ex_refusal, [] @ [ex_zip_request])
   \<and> http_Do ex_world_refusing [] ex_zip_request
     = Inr \<lparr>StatusCode = 422, Status = ''422 Unprocessable Entity'', Body = ''already_exists''\<rparr>
   \<and> (\<exists>text. Some ex_refusal = Some (Err (text @ ''already_exists'')))"
proof -
  let ?resp = "\<lparr>StatusCode = 422, Status = ''422 Unprocessable Entity'',
                 Body = ''already_exists''\<rparr>"
  have d: "http_Do ex_world_refusing [] ex_zip_request = Inr ?resp" by code_simp
  have s: "StatusCode ?resp \<noteq> 201" by simp
  from upload_status[OF ex_upload]
  have ok: "\<exists>req resp. [] @ [ex_zip_request] = [] @ [req] \<and> http_Do ex_world [] req = Inr resp
          \<and> StatusCode resp = 201" by simp
  from upload_status[OF ex_upload_refused]
  have "\<forall>req resp. [] @ [ex_zip_request] = [] @ [req] \<longrightarrow> http_Do ex_world_refusing [] req = Inr resp
            \<longrightarrow> StatusCode resp \<noteq> 201
            \<longrightarrow> (\<exists>text. Some ex_refusal = Some (Err (text @ Body resp)))" by blast
  then have "[] @ [ex_zip_request] = [] @ [ex_zip_request]
       \<longrightarrow> http_Do ex_world_refusing [] ex_zip_request = Inr ?resp
       \<longrightarrow> StatusCode ?resp \<noteq> 201
       \<longrightarrow> (\<exists>text. Some ex_refusal = Some (Err (text @ Body ?resp)))" by blast
  with d s have "\<exists>text. Some ex_refusal = Some (Err (text @ ''already_exists''))" by simp
  with ok d ex_upload ex_upload_refused show ?thesis by blast
qed

text \<open>
  C1. The uploads that a run of the loop attempts are, in the order of the listing,
  entries of \<open>spec_uploads\<close>: files that are not directories and whose name ends in
  \<open>.zip\<close> (with content type \<open>application/zip\<close>) or \<open>.tar.gz\<close> (with
  \<open>application/gzip\<close>). When no upload fails, they are all of these entries; every
  directory and every other file is passed over. For the listing \<open>a.zip\<close>,
  \<open>b.tar.gz\<close>, \<open>c.txt\<close>, \<open>d/\<close> these are two uploads.
\<close>

theorem main_loop_uploads_archives:
  assumes "main_loop (recording up) entries (s, []) = (res, s', calls)"
  shows "prefix calls (spec_uploads entries) \<and> (res = None \<longrightarrow> calls = spec_uploads entries)"
  using main_loop_recording[OF assms] by simp

theorem main_loop_uploads_archives_witness:
  "main_loop (recording (upload ex_world ex_client ex_upload_url)) ex_entries ([], [])
     = (None, [ex_zip_request, ex_targz_request],
        [(''bin/a.zip'', ''application/zip''), (''bin/b.tar.gz'', ''application/gzip'')])
   \<and> spec_uploads ex_entries
     = [(''bin/a.zip'', ''application/zip''), (''bin/b.tar.gz'', ''application/gzip'')]"
proof -
  have h: "main_loop (recording (upload ex_world ex_client ex_upload_url)) ex_entries ([], [])
     = (None, [ex_zip_request, ex_targz_request],
        [(''bin/a.zip'', ''application/zip''), (''bin/b.tar.gz'', ''application/gzip'')])"
    by code_simp
  from main_loop_uploads_archives[OF h] h show ?thesis by simp
qed

text \<open>
  C2. Uploads happen one after the other in the order of the listing. When the run
  over the entries before \<open>e\<close> has ended without error and the upload of \<open>e\<close>
  returns an error (as it does for every answer other than 201), the loop ends
  there with that error: the calls are those made before and the one for \<open>e\<close>,
  and the state is the one the failed upload left, whatever entries follow.
\<close>

theorem main_loop_aborts:
  assumes "main_loop (recording up) before (s, []) = (None, s1, calls1)"
    and "\<not> IsDir e"
    and "spec_content_type (Name e) = Some ct"
    and "up (filepath_Join [binDir, Name e]) ct s1 = (Some err, s2)"
  shows "main_loop (recording up) (before @ e # after) (s, [])
         = (Some (Name e, err), s2, calls1 @ [(filepath_Join [binDir, Name e], ct)])"
proof -
  have "recording up (filepath_Join [binDir, Name e]) ct (s1, calls1)
        = (Some err, s2, calls1 @ [(filepath_Join [binDir, Name e], ct)])"
    using assms(4) by (simp add: recording_def)
  then have "main_loop (recording up) (e # after) (s1, calls1)
        = (Some (Name e, err), s2, calls1 @ [(filepath_Join [binDir, Name e], ct)])"
    using assms(2,3) by (simp add: main_loop_upload del: main_loop.simps)
  with main_loop_append[OF assms(1), of "e # after"] show ?thesis by simp
qed

theorem main_loop_aborts_witness:
  "main_loop (recording (upload ex_world_refusing ex_client ex_upload_url)) [] ([], [])
     = (None, [], [])
   \<and> \<not> IsDir \<lparr>Name = ''a.zip'', IsDir = False\<rparr>
   \<and> spec_content_type ''a.zip'' = Some ''application/zip''
   \<and> upload ex_world_refusing ex_client ex_upload_url ''bin/a.zip'' ''application/zip'' []
     = (Some ex_refusal, [ex_zip_request])
   \<and> main_loop (recording (upload ex_world_refusing ex_client ex_upload_url)) ex_entries
        ([], [])
     = (Some (''a.zip'', ex_refusal), [ex_zip_request], [(''bin/a.zip'', ''application/zip'')])"
proof -
  let ?up = "upload ex_world_refusing ex_client ex_upload_url"
  let ?e = "\<lparr>Name = ''a.zip'', IsDir = False\<rparr>"
  have h1: "main_loop (recording ?up) [] ([], []) = (None, [], [])" by simp
  have h2: "\<not> IsDir ?e" by simp
  have h3: "spec_content_type (Name ?e) = Some ''application/zip''" by code_simp
  have p: "filepath_Join [binDir, ''a.zip''] = ''bin/a.zip''" by code_simp
  have h4: "?up (filepath_Join [binDir, Name ?e]) ''application/zip'' []
            = (Some ex_refusal, [ex_zip_request])"
    using ex_upload_refused by (simp add: p)
  have e: "[] @ ?e # tl ex_entries = ex_entries" by (simp add: ex_entries_def)
  have "main_loop (recording ?up) ([] @ ?e # tl ex_entries) ([], [])
        = (Some (Name ?e, ex_refusal), [ex_zip_request],
           [] @ [(filepath_Join [binDir, Name ?e], ''application/zip'')])"
    by (rule main_loop_aborts[OF h1 h2 h3 h4])
  then have "main_loop (recording ?up) ex_entries ([], [])
        = (Some (''a.zip'', ex_refusal), [ex_zip_request], [(''bin/a.zip'', ''application/zip'')])"
    unfolding e by (simp add: p del: main_loop.simps)
  moreover have "spec_content_type ''a.zip'' = Some ''application/zip''" using h3 by simp
  moreover have "?up ''bin/a.zip'' ''application/zip'' [] = (Some ex_refusal, [ex_zip_request])"
    using ex_upload_refused by simp
  ultimately show ?thesis using h1 by (simp del: main_loop.simps)
qed

text \<open>
  C10. When the file cannot be stat'd, \<open>upload\<close> returns the error of the stat and
  leaves the list of requests as it was: nothing is sent, whatever the upload URL
  and the content type are.
\<close>

theorem upload_stat_fails:
  "os_Stat w path = Inl err
   \<Longrightarrow> upload w c url path contentType sent = (Some (Err (''stat asset: '' @ err)), sent)"
  by (simp add: upload_def)

theorem upload_stat_fails_witness:
  "os_Stat ex_world ''bin/missing.zip'' = Inl ''no such file or directory''
   \<and> upload ex_world ex_client ex_upload_url ''bin/missing.zip'' ''application/zip'' []
       = (Some (Err ''stat asset: no such file or directory''), [])"
proof -
  have h: "os_Stat ex_world ''bin/missing.zip'' = Inl ''no such file or directory''"
    by code_simp
  show ?thesis
    using upload_stat_fails[OF h, of ex_client ex_upload_url "''application/zip''" "[]"] h
    by simp
qed

end
